theory Spec2Isabelle
  imports Main
begin

section \<open>The StaticHosting construct of src/lib/static-hosting.ts\<close>

text \<open>
  The repository is one class, \<open>StaticHosting\<close>, whose constructor declares child
  constructs in its own scope (\<open>new X(this, id, props)\<close>), grants bucket permissions
  (\<open>bucket.grantRead(oai)\<close>) and links a user to a group (\<open>group.addUser(user)\<close>).
  The construct library itself (\<open>@aws-cdk/*\<close>) is an external dependency: the model
  records what the constructor hands to it, in the order it does, and nothing of what
  the library computes from it afterwards.

  \<^item> An object created by \<open>new X(this, id, props)\<close> is referred to by its id in the
    scope; the constructor uses fifteen literal ids.
  \<^item> Reading an attribute of a declared construct (\<open>bucket.bucketName\<close>,
    \<open>distribution.distributionId\<close>) yields a deploy-time reference, kept symbolic as
    \<open>Attribute id name\<close>.
  \<^item> An optional property \<open>p?: T\<close> is a \<open>T option\<close>; the conditions of the source
    test JavaScript truthiness, written out below per type.
  \<^item> The constructor has no \<open>throw\<close> and no early return, so it is a total function
    from the properties to the populated scope.
\<close>

subsection \<open>Values of the construct library that the constructor passes\<close>

type_synonym construct_id = string

datatype reference = Attribute construct_id string

text \<open>A template literal that interpolates a reference, kept as its parts in order.\<close>

datatype text_part = Lit string | Tok reference

datatype BucketEncryption = UNENCRYPTED | KMS_MANAGED | S3_MANAGED | KMS
datatype BlockPublicAccess = BLOCK_ALL | BLOCK_ACLS
datatype RemovalPolicy = DESTROY | RETAIN
datatype PriceClass = PRICE_CLASS_100 | PRICE_CLASS_200 | PRICE_CLASS_ALL
datatype ViewerProtocolPolicy = HTTPS_ONLY | REDIRECT_TO_HTTPS | ALLOW_ALL
datatype SecurityPolicyProtocol = SSL_V3 | TLS_V1 | TLS_V1_2016 | TLS_V1_1_2016 | TLS_V1_2_2018
datatype SSLMethod = SNI | VIP
datatype Effect = ALLOW | DENY

record BucketProps =
  bucketName :: string
  encryption :: BucketEncryption
  blockPublicAccess :: BlockPublicAccess
  removalPolicy :: "RemovalPolicy option"

record CfnOutputProps =
  description :: string
  value' :: reference

record OriginAccessIdentityProps =
  comment :: string

record UserProps =
  userName :: string

text \<open>
  \<open>Behavior\<close> and \<open>SourceConfiguration\<close> are interfaces of the library; the constructor
  writes \<open>isDefaultBehavior\<close>, \<open>s3OriginSource\<close> and \<open>behaviors\<close> and passes caller
  values through unread. The field \<open>behaviors\<close> of a source configuration is named
  \<open>originBehaviors\<close> here, and the \<open>domainName\<close> of a custom origin and of a zone
  lookup \<open>originDomainName\<close> and \<open>lookupDomainName\<close>, since the properties of the
  construct have fields of the same names.
\<close>

record Behavior =
  isDefaultBehavior :: "bool option"
  pathPattern :: "string option"

record S3OriginConfig =
  s3BucketSource :: construct_id
  originAccessIdentity :: "construct_id option"

record CustomOriginConfig =
  originDomainName :: string

record SourceConfiguration =
  s3OriginSource :: "S3OriginConfig option"
  customOriginSource :: "CustomOriginConfig option"
  originBehaviors :: "Behavior list"

record AliasConfiguration =
  acmCertRef :: string
  names :: "string list"
  securityPolicy :: SecurityPolicyProtocol
  sslMethod :: SSLMethod

record ErrorConfiguration =
  errorCode :: nat
  errorCachingMinTtl :: nat
  responseCode :: nat
  responsePagePath :: string

record LoggingConfiguration =
  bucket :: construct_id

record CloudFrontWebDistributionProps =
  aliasConfiguration :: AliasConfiguration
  originConfigs :: "SourceConfiguration list"
  errorConfigurations :: "ErrorConfiguration list"
  priceClass :: PriceClass
  viewerProtocolPolicy :: ViewerProtocolPolicy
  loggingConfig :: "LoggingConfiguration option"

record PolicyStatement =
  effect :: Effect
  actions :: "string list"
  resources :: "text_part list list"

text \<open>
  The constructor passes \<open>groups\<close> and \<open>statements\<close> to \<open>Policy\<close> and leaves
  \<open>users\<close> out, hence \<open>None\<close> there.
\<close>

record PolicyProps =
  users :: "construct_id list option"
  groups :: "construct_id list"
  statements :: "PolicyStatement list"

record HostedZoneProviderProps =
  lookupDomainName :: string

datatype AliasRecordTarget = CloudFrontTarget construct_id
datatype RecordTarget = fromAlias AliasRecordTarget

record ARecordProps =
  recordName :: string
  target :: RecordTarget
  zone :: construct_id

datatype resource =
    Bucket BucketProps
  | CfnOutput CfnOutputProps
  | OriginAccessIdentity OriginAccessIdentityProps
  | User UserProps
  | Group
  | CloudFrontWebDistribution CloudFrontWebDistributionProps
  | Policy PolicyProps
  | HostedZone_fromLookup HostedZoneProviderProps
  | ARecord ARecordProps

datatype access = Read | Write | ReadWrite

datatype grant = Grant access construct_id construct_id

subsection \<open>The scope being populated\<close>

record Construct =
  children :: "(construct_id \<times> resource) list"
  grants :: "grant list"
  groupUsers :: "(construct_id \<times> construct_id) list"

definition empty_scope :: Construct where
  "empty_scope = \<lparr>children = [], grants = [], groupUsers = []\<rparr>"

text \<open>\<open>new X(this, id, props)\<close>: the child is added to the scope and its id is the handle.\<close>

definition new :: "construct_id \<Rightarrow> resource \<Rightarrow> Construct \<Rightarrow> construct_id \<times> Construct" where
  "new i r this = (i, this\<lparr>children := children this @ [(i, r)]\<rparr>)"

text \<open>\<open>b.grantRead(p)\<close>, \<open>b.grantWrite(p)\<close>, \<open>b.grantReadWrite(p)\<close>.\<close>

definition grantRead :: "construct_id \<Rightarrow> construct_id \<Rightarrow> Construct \<Rightarrow> Construct" where
  "grantRead b p this = this\<lparr>grants := grants this @ [Grant Read b p]\<rparr>"

definition grantWrite :: "construct_id \<Rightarrow> construct_id \<Rightarrow> Construct \<Rightarrow> Construct" where
  "grantWrite b p this = this\<lparr>grants := grants this @ [Grant Write b p]\<rparr>"

definition grantReadWrite :: "construct_id \<Rightarrow> construct_id \<Rightarrow> Construct \<Rightarrow> Construct" where
  "grantReadWrite b p this = this\<lparr>grants := grants this @ [Grant ReadWrite b p]\<rparr>"

text \<open>\<open>g.addUser(u)\<close>.\<close>

definition addUser :: "construct_id \<Rightarrow> construct_id \<Rightarrow> Construct \<Rightarrow> Construct" where
  "addUser g u this = this\<lparr>groupUsers := groupUsers this @ [(g, u)]\<rparr>"

subsection \<open>The properties and JavaScript truthiness\<close>

record StaticHostingProps =
  domainName :: string
  subDomainName :: string
  certificateArn :: string
  createDnsRecord :: "bool option"
  createPublisherGroup :: "bool option"
  createPublisherUser :: "bool option"
  extraDistributionCnames :: "string list option"
  enableCloudFrontAccessLogging :: "bool option"
  zoneName :: "string option"
  customOriginConfigs :: "SourceConfiguration list option"
  behaviors :: "Behavior list option"

text \<open>
  An absent property is \<open>undefined\<close>, which is falsy. A boolean is truthy when it is
  \<open>true\<close>, a string when it is not empty, an array or an object always (also the empty
  array).
\<close>

fun truthy_flag :: "bool option \<Rightarrow> bool" where
  "truthy_flag None = False"
| "truthy_flag (Some b) = b"

fun truthy_string :: "string option \<Rightarrow> bool" where
  "truthy_string None = False"
| "truthy_string (Some s) = (s \<noteq> [])"

fun truthy_object :: "'a option \<Rightarrow> bool" where
  "truthy_object None = False"
| "truthy_object (Some x) = True"

subsection \<open>The constructor\<close>

definition StaticHosting :: "StaticHostingProps \<Rightarrow> Construct" where
  "StaticHosting props =
    (let this = empty_scope;
         siteName = subDomainName props @ ''.'' @ domainName props;
         siteNameArray = [siteName];
         distributionCnames =
           (if truthy_object (extraDistributionCnames props)
            then siteNameArray @ the (extraDistributionCnames props)
            else siteNameArray);
         (bucket, this) = new ''ContentBucket'' (Bucket
            \<lparr>bucketName = siteName, encryption = S3_MANAGED,
             blockPublicAccess = BLOCK_ALL, removalPolicy = None\<rparr>) this;
         (_, this) = new ''Bucket'' (CfnOutput
            \<lparr>description = ''BucketName'', value' = Attribute bucket ''bucketName''\<rparr>) this;
         (oai, this) = new ''OriginAccessIdentity'' (OriginAccessIdentity
            \<lparr>comment = ''Allow CloudFront to access S3''\<rparr>) this;
         this = grantRead bucket oai this;
         (publisherUser, this) =
           (if truthy_flag (createPublisherUser props)
            then map_prod Some id
              (new ''PublisherUser'' (User \<lparr>userName = ''publisher-'' @ siteName\<rparr>) this)
            else (None, this));
         this =
           (case publisherUser of
              Some u \<Rightarrow> snd (new ''PublisherUserName'' (CfnOutput
                \<lparr>description = ''PublisherUser'', value' = Attribute u ''userName''\<rparr>) this)
            | None \<Rightarrow> this);
         (publisherGroup, this) =
           (if truthy_flag (createPublisherGroup props)
            then map_prod Some id (new ''PublisherGroup'' Group this)
            else (None, this));
         this =
           (case publisherGroup of
              Some g \<Rightarrow>
                (let this = grantReadWrite bucket g this;
                     (_, this) = new ''PublisherGroupName'' (CfnOutput
                       \<lparr>description = ''PublisherGroup'', value' = Attribute g ''groupName''\<rparr>) this
                 in (case publisherUser of
                       Some u \<Rightarrow> addUser g u this
                     | None \<Rightarrow> this))
            | None \<Rightarrow> this);
         (loggingBucket, this) =
           (if truthy_flag (enableCloudFrontAccessLogging props)
            then map_prod Some id (new ''LoggingBucket'' (Bucket
              \<lparr>bucketName = siteName @ ''-access-logs'', encryption = S3_MANAGED,
               blockPublicAccess = BLOCK_ALL, removalPolicy = Some RETAIN\<rparr>) this)
            else (None, this));
         this =
           (case loggingBucket of
              Some l \<Rightarrow>
                (let this = grantWrite l oai this
                 in snd (new ''LoggingBucketName'' (CfnOutput
                   \<lparr>description = ''CloudFront Logs'', value' = Attribute l ''bucketName''\<rparr>) this))
            | None \<Rightarrow> this);
         loggingConfig =
           (case loggingBucket of
              Some l \<Rightarrow> Some \<lparr>bucket = l\<rparr>
            | None \<Rightarrow> None);
         originConfigs = [];
         originConfigs = originConfigs @
           [\<lparr>s3OriginSource = Some \<lparr>s3BucketSource = bucket, originAccessIdentity = Some oai\<rparr>,
             customOriginSource = None,
             originBehaviors =
               (if truthy_object (behaviors props) then the (behaviors props)
                else [\<lparr>isDefaultBehavior = Some True, pathPattern = None\<rparr>])\<rparr>];
         originConfigs =
           (if truthy_object (customOriginConfigs props)
            then originConfigs @ the (customOriginConfigs props)
            else originConfigs);
         (distribution, this) = new ''BucketCdn'' (CloudFrontWebDistribution
            \<lparr>aliasConfiguration =
               \<lparr>acmCertRef = certificateArn props, names = distributionCnames,
                securityPolicy = TLS_V1_2_2018, sslMethod = SNI\<rparr>,
             originConfigs = originConfigs,
             errorConfigurations =
               [\<lparr>errorCode = 404, errorCachingMinTtl = 0, responseCode = 200,
                 responsePagePath = ''/index.html''\<rparr>],
             priceClass = PRICE_CLASS_ALL,
             viewerProtocolPolicy = REDIRECT_TO_HTTPS,
             loggingConfig = loggingConfig\<rparr>) this;
         this =
           (case publisherGroup of
              Some g \<Rightarrow>
                (let cloudFrontInvalidationPolicyStatement =
                       \<lparr>effect = ALLOW,
                        actions = [''cloudfront:CreateInvalidation'',
                                   ''cloudfront:GetInvalidation'',
                                   ''cloudfront:ListInvalidations''],
                        resources = [[Lit ''arn:aws:cloudfront::*:distribution/'',
                                      Tok (Attribute distribution ''distributionId'')]]\<rparr>
                 in snd (new ''CloudFrontInvalidationPolicy'' (Policy
                      \<lparr>users = None, groups = [g],
                       statements = [cloudFrontInvalidationPolicyStatement]\<rparr>) this))
            | None \<Rightarrow> this);
         (_, this) = new ''DistributionId'' (CfnOutput
            \<lparr>description = ''DistributionId'',
             value' = Attribute distribution ''distributionId''\<rparr>) this;
         (_, this) = new ''DistributionDomainName'' (CfnOutput
            \<lparr>description = ''DistributionDomainName'',
             value' = Attribute distribution ''domainName''\<rparr>) this
     in if truthy_flag (createDnsRecord props) \<and> truthy_string (zoneName props)
        then (let (zone, this) = new ''Zone'' (HostedZone_fromLookup
                     \<lparr>lookupDomainName = the (zoneName props)\<rparr>) this
              in snd (new ''SiteAliasRecord'' (ARecord
                   \<lparr>recordName = siteName,
                    target = fromAlias (CloudFrontTarget distribution),
                    zone = zone\<rparr>) this))
        else this)"


subsection \<open>Reading a populated scope\<close>

text \<open>
  The claims speak of what the built graph contains. These functions read it: the child
  with a given id, the children of one kind in declaration order, and the statements of
  all policies with the users and groups each is attached to.
\<close>

definition node :: "construct_id \<Rightarrow> Construct \<Rightarrow> resource option" where
  "node i this = map_of (children this) i"


definition declaredOutputs :: "Construct \<Rightarrow> (construct_id \<times> CfnOutputProps) list" where
  "declaredOutputs this = [(i, p). (i, CfnOutput p) \<leftarrow> children this]"

definition declaredUsers :: "Construct \<Rightarrow> (construct_id \<times> UserProps) list" where
  "declaredUsers this = [(i, p). (i, User p) \<leftarrow> children this]"







text \<open>The configuration of the specification's example, every optional property absent.\<close>

definition exampleProps :: StaticHostingProps where
  "exampleProps =
     \<lparr>domainName = ''example.com'', subDomainName = ''www'', certificateArn = ''arn:cert'',
      createDnsRecord = None, createPublisherGroup = None, createPublisherUser = None,
      extraDistributionCnames = None, enableCloudFrontAccessLogging = None, zoneName = None,
      customOriginConfigs = None, behaviors = None\<rparr>"

section \<open>The populated scope in closed form\<close>

lemma new_scope:
  "new i r \<lparr>children = cs, grants = gs, groupUsers = us\<rparr>
     = (i, \<lparr>children = cs @ [(i, r)], grants = gs, groupUsers = us\<rparr>)"
  by (simp add: new_def)

lemma grantRead_scope:
  "grantRead b p \<lparr>children = cs, grants = gs, groupUsers = us\<rparr>
     = \<lparr>children = cs, grants = gs @ [Grant Read b p], groupUsers = us\<rparr>"
  by (simp add: grantRead_def)

lemma grantWrite_scope:
  "grantWrite b p \<lparr>children = cs, grants = gs, groupUsers = us\<rparr>
     = \<lparr>children = cs, grants = gs @ [Grant Write b p], groupUsers = us\<rparr>"
  by (simp add: grantWrite_def)

lemma grantReadWrite_scope:
  "grantReadWrite b p \<lparr>children = cs, grants = gs, groupUsers = us\<rparr>
     = \<lparr>children = cs, grants = gs @ [Grant ReadWrite b p], groupUsers = us\<rparr>"
  by (simp add: grantReadWrite_def)

lemma addUser_scope:
  "addUser g u \<lparr>children = cs, grants = gs, groupUsers = us\<rparr>
     = \<lparr>children = cs, grants = gs, groupUsers = us @ [(g, u)]\<rparr>"
  by (simp add: addUser_def)

lemmas scope_simps =
  new_scope grantRead_scope grantWrite_scope grantReadWrite_scope addUser_scope

text \<open>
  Every path through the constructor, collected: the fixed children in order, with the
  children of each optional feature at the place the constructor declares them.
\<close>

lemma StaticHosting_eq:
  "StaticHosting props =
    \<lparr>children =
       [(''ContentBucket'', Bucket
           \<lparr>bucketName = subDomainName props @ ''.'' @ domainName props,
            encryption = S3_MANAGED, blockPublicAccess = BLOCK_ALL, removalPolicy = None\<rparr>),
        (''Bucket'', CfnOutput
           \<lparr>description = ''BucketName'',
            value' = Attribute ''ContentBucket'' ''bucketName''\<rparr>),
        (''OriginAccessIdentity'', OriginAccessIdentity
           \<lparr>comment = ''Allow CloudFront to access S3''\<rparr>)]
       @ (if truthy_flag (createPublisherUser props)
          then [(''PublisherUser'', User
                   \<lparr>userName = ''publisher-'' @ subDomainName props @ ''.'' @ domainName props\<rparr>),
                (''PublisherUserName'', CfnOutput
                   \<lparr>description = ''PublisherUser'',
                    value' = Attribute ''PublisherUser'' ''userName''\<rparr>)]
          else [])
       @ (if truthy_flag (createPublisherGroup props)
          then [(''PublisherGroup'', Group),
                (''PublisherGroupName'', CfnOutput
                   \<lparr>description = ''PublisherGroup'',
                    value' = Attribute ''PublisherGroup'' ''groupName''\<rparr>)]
          else [])
       @ (if truthy_flag (enableCloudFrontAccessLogging props)
          then [(''LoggingBucket'', Bucket
                   \<lparr>bucketName = (subDomainName props @ ''.'' @ domainName props) @ ''-access-logs'',
                    encryption = S3_MANAGED, blockPublicAccess = BLOCK_ALL,
                    removalPolicy = Some RETAIN\<rparr>),
                (''LoggingBucketName'', CfnOutput
                   \<lparr>description = ''CloudFront Logs'',
                    value' = Attribute ''LoggingBucket'' ''bucketName''\<rparr>)]
          else [])
       @ [(''BucketCdn'', CloudFrontWebDistribution
            \<lparr>aliasConfiguration =
               \<lparr>acmCertRef = certificateArn props,
                names = (subDomainName props @ ''.'' @ domainName props)
                          # (case extraDistributionCnames props of None \<Rightarrow> [] | Some e \<Rightarrow> e),
                securityPolicy = TLS_V1_2_2018, sslMethod = SNI\<rparr>,
             originConfigs =
               \<lparr>s3OriginSource = Some \<lparr>s3BucketSource = ''ContentBucket'',
                                        originAccessIdentity = Some ''OriginAccessIdentity''\<rparr>,
                customOriginSource = None,
                originBehaviors =
                  (case behaviors props of
                     None \<Rightarrow> [\<lparr>isDefaultBehavior = Some True, pathPattern = None\<rparr>]
                   | Some bs \<Rightarrow> bs)\<rparr>
               # (case customOriginConfigs props of None \<Rightarrow> [] | Some cs \<Rightarrow> cs),
             errorConfigurations =
               [\<lparr>errorCode = 404, errorCachingMinTtl = 0, responseCode = 200,
                 responsePagePath = ''/index.html''\<rparr>],
             priceClass = PRICE_CLASS_ALL,
             viewerProtocolPolicy = REDIRECT_TO_HTTPS,
             loggingConfig =
               (if truthy_flag (enableCloudFrontAccessLogging props)
                then Some \<lparr>bucket = ''LoggingBucket''\<rparr> else None)\<rparr>)]
       @ (if truthy_flag (createPublisherGroup props)
          then [(''CloudFrontInvalidationPolicy'', Policy
                   \<lparr>users = None, groups = [''PublisherGroup''],
                    statements =
                      [\<lparr>effect = ALLOW,
                        actions = [''cloudfront:CreateInvalidation'',
                                   ''cloudfront:GetInvalidation'',
                                   ''cloudfront:ListInvalidations''],
                        resources = [[Lit ''arn:aws:cloudfront::*:distribution/'',
                                      Tok (Attribute ''BucketCdn'' ''distributionId'')]]\<rparr>]\<rparr>)]
          else [])
       @ [(''DistributionId'', CfnOutput
             \<lparr>description = ''DistributionId'',
              value' = Attribute ''BucketCdn'' ''distributionId''\<rparr>),
          (''DistributionDomainName'', CfnOutput
             \<lparr>description = ''DistributionDomainName'',
              value' = Attribute ''BucketCdn'' ''domainName''\<rparr>)]
       @ (if truthy_flag (createDnsRecord props) \<and> truthy_string (zoneName props)
          then [(''Zone'', HostedZone_fromLookup \<lparr>lookupDomainName = the (zoneName props)\<rparr>),
                (''SiteAliasRecord'', ARecord
                   \<lparr>recordName = subDomainName props @ ''.'' @ domainName props,
                    target = fromAlias (CloudFrontTarget ''BucketCdn''),
                    zone = ''Zone''\<rparr>)]
          else []),
     grants =
       [Grant Read ''ContentBucket'' ''OriginAccessIdentity'']
       @ (if truthy_flag (createPublisherGroup props)
          then [Grant ReadWrite ''ContentBucket'' ''PublisherGroup''] else [])
       @ (if truthy_flag (enableCloudFrontAccessLogging props)
          then [Grant Write ''LoggingBucket'' ''OriginAccessIdentity''] else []),
     groupUsers =
       (if truthy_flag (createPublisherGroup props) \<and> truthy_flag (createPublisherUser props)
        then [(''PublisherGroup'', ''PublisherUser'')] else [])\<rparr>"
proof (cases "extraDistributionCnames props"; cases "behaviors props";
    cases "customOriginConfigs props";
    cases "truthy_flag (createPublisherUser props)";
    cases "truthy_flag (createPublisherGroup props)";
    cases "truthy_flag (enableCloudFrontAccessLogging props)";
    cases "truthy_flag (createDnsRecord props) \<and> truthy_string (zoneName props)")
qed (simp_all only: StaticHosting_def Let_def scope_simps empty_scope_def if_True if_False
       truthy_object.simps option.sel option.case case_prod_conv map_prod_simp id_apply
       snd_conv fst_conv append_Nil append_Cons append_Nil2 append_assoc simp_thms)




lemma declaredOutputs_StaticHosting:
  "declaredOutputs (StaticHosting props) =
     [(''Bucket'',
        \<lparr>description = ''BucketName'', value' = Attribute ''ContentBucket'' ''bucketName''\<rparr>)]
     @ (if truthy_flag (createPublisherUser props)
        then [(''PublisherUserName'',
                 \<lparr>description = ''PublisherUser'',
                  value' = Attribute ''PublisherUser'' ''userName''\<rparr>)]
        else [])
     @ (if truthy_flag (createPublisherGroup props)
        then [(''PublisherGroupName'',
                 \<lparr>description = ''PublisherGroup'',
                  value' = Attribute ''PublisherGroup'' ''groupName''\<rparr>)]
        else [])
     @ (if truthy_flag (enableCloudFrontAccessLogging props)
        then [(''LoggingBucketName'',
                 \<lparr>description = ''CloudFront Logs'',
                  value' = Attribute ''LoggingBucket'' ''bucketName''\<rparr>)]
        else [])
     @ [(''DistributionId'',
           \<lparr>description = ''DistributionId'',
            value' = Attribute ''BucketCdn'' ''distributionId''\<rparr>),
        (''DistributionDomainName'',
           \<lparr>description = ''DistributionDomainName'',
            value' = Attribute ''BucketCdn'' ''domainName''\<rparr>)]"
  by (auto simp add: declaredOutputs_def StaticHosting_eq)

lemma declaredOutputs_ids_StaticHosting:
  "map fst (declaredOutputs (StaticHosting props)) =
     [''Bucket'']
     @ (if truthy_flag (createPublisherUser props) then [''PublisherUserName''] else [])
     @ (if truthy_flag (createPublisherGroup props) then [''PublisherGroupName''] else [])
     @ (if truthy_flag (enableCloudFrontAccessLogging props) then [''LoggingBucketName''] else [])
     @ [''DistributionId'', ''DistributionDomainName'']"
  by (simp add: declaredOutputs_StaticHosting)

lemma declaredUsers_StaticHosting:
  "declaredUsers (StaticHosting props) =
     (if truthy_flag (createPublisherUser props)
      then [(''PublisherUser'',
               \<lparr>userName = ''publisher-'' @ subDomainName props @ ''.'' @ domainName props\<rparr>)]
      else [])"
  by (auto simp add: declaredUsers_def StaticHosting_eq)





text \<open>The ids the constructor uses are pairwise different, so \<open>node\<close> finds the child of an id.\<close>

lemma distinct_ids_StaticHosting:
  "distinct (map fst (children (StaticHosting props)))"
  by (cases "truthy_flag (createPublisherUser props)";
      cases "truthy_flag (createPublisherGroup props)";
      cases "truthy_flag (enableCloudFrontAccessLogging props)";
      cases "truthy_flag (createDnsRecord props)"; cases "truthy_string (zoneName props)")
     (simp_all add: StaticHosting_eq)

subsection \<open>Single children and truthiness as equations\<close>

lemma truthy_flag_iff: "truthy_flag b \<longleftrightarrow> b = Some True"
  by (cases b) simp_all



lemma node_optional:
  "node ''PublisherUser'' (StaticHosting props) =
     (if truthy_flag (createPublisherUser props)
      then Some (User \<lparr>userName = ''publisher-'' @ subDomainName props @ ''.'' @ domainName props\<rparr>)
      else None)"
  "node ''PublisherUserName'' (StaticHosting props) =
     (if truthy_flag (createPublisherUser props)
      then Some (CfnOutput \<lparr>description = ''PublisherUser'',
                            value' = Attribute ''PublisherUser'' ''userName''\<rparr>)
      else None)"
  "node ''PublisherGroup'' (StaticHosting props) =
     (if truthy_flag (createPublisherGroup props) then Some Group else None)"
  "node ''LoggingBucket'' (StaticHosting props) =
     (if truthy_flag (enableCloudFrontAccessLogging props)
      then Some (Bucket
        \<lparr>bucketName = (subDomainName props @ ''.'' @ domainName props) @ ''-access-logs'',
         encryption = S3_MANAGED, blockPublicAccess = BLOCK_ALL, removalPolicy = Some RETAIN\<rparr>)
      else None)"
  "node ''LoggingBucketName'' (StaticHosting props) =
     (if truthy_flag (enableCloudFrontAccessLogging props)
      then Some (CfnOutput \<lparr>description = ''CloudFront Logs'',
                            value' = Attribute ''LoggingBucket'' ''bucketName''\<rparr>)
      else None)"
  "node ''SiteAliasRecord'' (StaticHosting props) =
     (if truthy_flag (createDnsRecord props) \<and> truthy_string (zoneName props)
      then Some (ARecord
        \<lparr>recordName = subDomainName props @ ''.'' @ domainName props,
         target = fromAlias (CloudFrontTarget ''BucketCdn''), zone = ''Zone''\<rparr>)
      else None)"
  by (cases "truthy_flag (createPublisherUser props)";
      cases "truthy_flag (createPublisherGroup props)";
      cases "truthy_flag (enableCloudFrontAccessLogging props)";
      cases "truthy_flag (createDnsRecord props)"; cases "truthy_string (zoneName props)";
      simp add: node_def StaticHosting_eq)+

section \<open>The claims\<close>

















text \<open>
  C9. With \<open>createPublisherUser\<close> \<open>false\<close> or absent, no user is declared, the ids
  \<open>PublisherUser\<close> and \<open>PublisherUserName\<close> are not in the scope, and the outputs are
  the bucket name, the group name and the logging bucket name where those features are
  enabled, and the two of the distribution.
\<close>

theorem no_publisher_user:
  assumes "createPublisherUser props \<noteq> Some True"
  shows "declaredUsers (StaticHosting props) = []
         \<and> node ''PublisherUser'' (StaticHosting props) = None
         \<and> node ''PublisherUserName'' (StaticHosting props) = None
         \<and> map fst (declaredOutputs (StaticHosting props)) =
             [''Bucket'']
             @ (if createPublisherGroup props = Some True then [''PublisherGroupName''] else [])
             @ (if enableCloudFrontAccessLogging props = Some True
                then [''LoggingBucketName''] else [])
             @ [''DistributionId'', ''DistributionDomainName'']"
  using assms
  by (simp add: declaredUsers_StaticHosting node_optional declaredOutputs_ids_StaticHosting
        truthy_flag_iff)

theorem no_publisher_user_witness:
  "createPublisherUser exampleProps \<noteq> Some True
   \<and> declaredUsers (StaticHosting exampleProps) = []
   \<and> map fst (declaredOutputs (StaticHosting exampleProps))
       = [''Bucket'', ''DistributionId'', ''DistributionDomainName'']
   \<and> createPublisherUser (exampleProps\<lparr>createPublisherUser := Some False\<rparr>) \<noteq> Some True
   \<and> declaredUsers (StaticHosting (exampleProps\<lparr>createPublisherUser := Some False\<rparr>)) = []"
  using no_publisher_user [of exampleProps]
        no_publisher_user [of "exampleProps\<lparr>createPublisherUser := Some False\<rparr>"]
  by (simp add: exampleProps_def)



end
